theory Spec2Isabelle
  imports Complex_Main "HOL-Library.Word" "HOL-Library.Multiset"
begin

section \<open>The CPU fingerprint helper (helper/stats/cpu.go)\<close>

subsection \<open>Values of the Go program\<close>

text \<open>
  A Go \<open>error\<close> is represented by its message; \<open>nil\<close> is \<open>None\<close> of an option.
  A finite \<open>float64\<close> is represented by the real number it denotes; the conversion of
  an \<open>int\<close> and the product of two \<open>float64\<close> round to the nearest \<open>float64\<close>, as
  defined below. A Go \<open>int\<close> is an \<open>int\<close>: the program performs no integer arithmetic
  on the core count. \<open>time.Duration\<close> counts nanoseconds.
\<close>

type_synonym error = string
type_synonym float64 = real
type_synonym Duration = int

definition Second :: Duration where
  "Second = 1000000000"

definition cpuInfoTimeout :: Duration where
  "cpuInfoTimeout = 60 * Second"

text \<open>
  A \<open>context.Context\<close>, as far as this file builds one: the background context, or a
  context derived from a parent with a timeout.
\<close>

datatype go_context = Background | WithTimeout go_context Duration

text \<open>
  \<open>*multierror.Error\<close>: \<open>nil\<close>, or the list of collected errors. \<open>Append\<close> allocates
  the collection when it is \<open>nil\<close>; \<open>ErrorOrNil\<close> is \<open>nil\<close> for a \<open>nil\<close> or empty one.
\<close>

type_synonym multierror = "error list option"

definition Append :: "multierror \<Rightarrow> error \<Rightarrow> multierror" where
  "Append merrs e = (case merrs of None \<Rightarrow> Some [e] | Some es \<Rightarrow> Some (es @ [e]))"

definition ErrorOrNil :: "multierror \<Rightarrow> multierror" where
  "ErrorOrNil merrs =
     (case merrs of None \<Rightarrow> None | Some es \<Rightarrow> if es = [] then None else Some es)"

text \<open>\<open>fmt.Errorf\<close> with a format that ends in \<open>: %v\<close>.\<close>

definition Errorf :: "string \<Rightarrow> error \<Rightarrow> error" where
  "Errorf prefix e = prefix @ '': '' @ e"

definition math_Floor :: "float64 \<Rightarrow> float64" where
  "math_Floor x = of_int \<lfloor>x\<rfloor>"

text \<open>
  Rounding to \<open>float64\<close>, to the nearest value with ties to the even significand. The
  finite \<open>float64\<close> values are the multiples \<open>m * 2^-1074\<close> in which the whole number
  \<open>m\<close> has at most 53 significant bits. \<open>shift_for a\<close> is the number of low bits that
  \<open>a\<close> has beyond 53, and \<open>round53 x\<close> rounds \<open>x \<ge> 0\<close> to the nearest whole number of
  at most 53 significant bits: \<open>q\<close> is the significand below \<open>x\<close> and \<open>r\<close> what \<open>x\<close>
  exceeds it by. A result beyond the largest finite \<open>float64\<close>, where Go gives an
  infinity, is outside the model; with a 64-bit core count it takes a clock speed above
  \<open>2^960\<close> MHz.
\<close>

fun shift_for :: "nat \<Rightarrow> nat" where
  "shift_for a = (if a < 9007199254740992 then 0 else Suc (shift_for (a div 2)))"

declare shift_for.simps [simp del]

definition round53 :: "real \<Rightarrow> real" where
  "round53 x =
     (let sh = shift_for (nat \<lfloor>x\<rfloor>);
          q = \<lfloor>x / 2 ^ sh\<rfloor>;
          r = x - of_int q * 2 ^ sh
      in if 2 * r < 2 ^ sh \<or> (2 * r = 2 ^ sh \<and> even q) then of_int q * 2 ^ sh
         else of_int (q + 1) * 2 ^ sh)"

definition round_float64 :: "real \<Rightarrow> float64" where
  "round_float64 x = sgn x * round53 (\<bar>x\<bar> * 2 ^ 1074) / 2 ^ 1074"

text \<open>The conversion \<open>float64(n)\<close> of an \<open>int\<close> and the product \<open>x * y\<close> of two \<open>float64\<close>.\<close>

definition float64_of_int :: "int \<Rightarrow> float64" where
  "float64_of_int n = round_float64 (of_int n)"

definition float64_mul :: "float64 \<Rightarrow> float64 \<Rightarrow> float64" where
  "float64_mul x y = round_float64 (x * y)"

record InfoStat =
  CPU :: "32 word"
  VendorID :: string
  Family :: string
  Model :: string
  Stepping :: "32 word"
  PhysicalID :: string
  CoreID :: string
  Cores :: "32 word"
  ModelName :: string
  Mhz :: float64
  CacheSize :: "32 word"
  Flags :: "string list"
  Microcode :: string

definition InfoStat_zero :: InfoStat where
  "InfoStat_zero = \<lparr>CPU = 0, VendorID = [], Family = [], Model = [], Stepping = 0,
     PhysicalID = [], CoreID = [], Cores = 0, ModelName = [], Mhz = 0, CacheSize = 0,
     Flags = [], Microcode = []\<rparr>"

subsection \<open>The host: what the system calls answer\<close>

text \<open>
  Each call returns Go's pair of a value and an error. \<open>cpu_Counts\<close> is the answer of
  \<open>cpu.Counts(true)\<close>, \<open>Sysctl\<close> and \<open>SysctlUint32\<close> those of \<open>unix.Sysctl\<close> and
  \<open>unix.SysctlUint32\<close> for each name.
\<close>

record host =
  cpu_Counts :: "int \<times> error option"
  Sysctl :: "string \<Rightarrow> string \<times> error option"
  SysctlUint32 :: "string \<Rightarrow> 32 word \<times> error option"

subsection \<open>Library functions on strings\<close>

text \<open>\<open>strconv.FormatUint(n, 10)\<close>: the decimal digits of \<open>n\<close>.\<close>

fun FormatUint :: "nat \<Rightarrow> string" where
  "FormatUint n =
     (if n < 10 then [''0123456789'' ! n]
      else FormatUint (n div 10) @ [''0123456789'' ! (n mod 10)])"

declare FormatUint.simps [simp del]

text \<open>
  \<open>strings.Fields\<close> and \<open>strings.ToLower\<close> as they work on ASCII text (\<open>isASCII\<close>), which
  is what the feature lists of the kernel are: fields are the maximal runs of characters
  other than space, tab, line feed, vertical tab, form feed and carriage return, and the
  letters \<open>A-Z\<close> are lower-cased. On other text Go also splits at Unicode white space and
  lower-cases other letters; statements about \<open>Flags\<close> are made for ASCII text.
\<close>

definition isASCII :: "string \<Rightarrow> bool" where
  "isASCII s \<longleftrightarrow> list_all (\<lambda>c. (of_char c :: nat) < 128) s"

definition isSpace :: "char \<Rightarrow> bool" where
  "isSpace c \<longleftrightarrow> (of_char c :: nat) \<in> {32, 9, 10, 11, 12, 13}"

fun FieldsFrom :: "string \<Rightarrow> string \<Rightarrow> string list" where
  "FieldsFrom cur [] = (if cur = [] then [] else [cur])"
| "FieldsFrom cur (c # cs) =
     (if isSpace c then (if cur = [] then FieldsFrom [] cs else cur # FieldsFrom [] cs)
      else FieldsFrom (cur @ [c]) cs)"

definition Fields :: "string \<Rightarrow> string list" where
  "Fields s = FieldsFrom [] s"

definition ToLower :: "string \<Rightarrow> string" where
  "ToLower s =
     map (\<lambda>c. if 65 \<le> (of_char c :: nat) \<and> (of_char c :: nat) \<le> 90
               then char_of (of_char c + 32 :: nat) else c) s"

subsection \<open>InfoWithContext\<close>

text \<open>The loop \<open>for _, v := range strings.Fields(x) { c.Flags = append(c.Flags, strings.ToLower(v)) }\<close>.\<close>

definition appendFlags :: "InfoStat \<Rightarrow> string \<Rightarrow> InfoStat" where
  "appendFlags c x = c\<lparr>Flags := Flags c @ map ToLower (Fields x)\<rparr>"

definition InfoWithContext :: "go_context \<Rightarrow> host \<Rightarrow> InfoStat list \<times> error option" where
  "InfoWithContext ctx h =
     (let ret = [];
          c = InfoStat_zero;
          c = c\<lparr>ModelName := fst (Sysctl h ''machdep.cpu.brand_string'')\<rparr>;
          family = fst (SysctlUint32 h ''machdep.cpu.family'');
          c = c\<lparr>Family := FormatUint (unat family)\<rparr>;
          model = fst (SysctlUint32 h ''machdep.cpu.model'');
          c = c\<lparr>Model := FormatUint (unat model)\<rparr>;
          stepping = fst (SysctlUint32 h ''machdep.cpu.stepping'');
          c = c\<lparr>Stepping := stepping\<rparr>;
          (features, err) = Sysctl h ''machdep.cpu.features'';
          c = (if err = None then appendFlags c features else c);
          (leaf7Features, err) = Sysctl h ''machdep.cpu.leaf7_features'';
          c = (if err = None then appendFlags c leaf7Features else c);
          (extfeatures, err) = Sysctl h ''machdep.cpu.extfeatures'';
          c = (if err = None then appendFlags c extfeatures else c);
          cores = fst (SysctlUint32 h ''machdep.cpu.core_count'');
          c = c\<lparr>Cores := cores\<rparr>;
          cacheSize = fst (SysctlUint32 h ''machdep.cpu.cache.size'');
          c = c\<lparr>CacheSize := cacheSize\<rparr>;
          c = c\<lparr>VendorID := fst (Sysctl h ''machdep.cpu.vendor'')\<rparr>;
          cpuFrequency = (3200000000 :: int);
          c = c\<lparr>Mhz := real_of_int cpuFrequency / 1000000\<rparr>
      in (ret @ [c], None))"

text \<open>What one feature sysctl contributes to \<open>Flags\<close>: the lower-cased fields of its value
  when it answered without an error, nothing otherwise.\<close>

definition probed_flags :: "string \<times> error option \<Rightarrow> string list" where
  "probed_flags r = (if snd r = None then map ToLower (Fields (fst r)) else [])"

subsection \<open>The package state, Init and the accessors\<close>

text \<open>
  The package variables. \<open>onceLer\<close> is the \<open>sync.Once\<close>: it holds whether its function
  has run.
\<close>

record cpu_state =
  cpuMhzPerCore :: float64
  cpuModelName :: string
  cpuNumCores :: int
  cpuTotalTicks :: float64
  initErr :: multierror
  onceLer :: bool

text \<open>The state of a process that has just started: every variable has its zero value.\<close>

definition start_state :: cpu_state where
  "start_state = \<lparr>cpuMhzPerCore = 0, cpuModelName = [], cpuNumCores = 0,
     cpuTotalTicks = 0, initErr = None, onceLer = False\<rparr>"

text \<open>
  The function handed to \<open>onceLer.Do\<close>. Its two probes are arguments: \<open>Counts\<close> is
  what \<open>cpu.Counts(true)\<close> returned, \<open>Info\<close> stands for \<open>InfoWithContext\<close> and is
  applied to the context built here.
\<close>

definition Init_probe ::
  "int \<times> error option \<Rightarrow> (go_context \<Rightarrow> InfoStat list \<times> error option) \<Rightarrow> cpu_state \<Rightarrow> cpu_state"
where
  "Init_probe Counts Info s =
     (let merrs = None;
          (n, err) = Counts;
          s = s\<lparr>cpuNumCores := n\<rparr>;
          merrs = (case err of None \<Rightarrow> merrs
                   | Some e \<Rightarrow> Append merrs
                       (Errorf ''Unable to determine the number of CPU cores available'' e));
          ctx = WithTimeout Background cpuInfoTimeout;
          (cpuInfo, err) = Info ctx;
          merrs = (case err of None \<Rightarrow> merrs
                   | Some e \<Rightarrow> Append merrs (Errorf ''Unable to obtain CPU information'' e));
          s = (case cpuInfo of [] \<Rightarrow> s
               | cpu # _ \<Rightarrow> s\<lparr>cpuModelName := ModelName cpu, cpuMhzPerCore := Mhz cpu\<rparr>);
          s = s\<lparr>cpuMhzPerCore := math_Floor (cpuMhzPerCore s)\<rparr>;
          s = s\<lparr>cpuTotalTicks :=
                 math_Floor (float64_mul (float64_of_int (cpuNumCores s)) (cpuMhzPerCore s))\<rparr>;
          s = s\<lparr>initErr := ErrorOrNil merrs\<rparr>
      in s)"

text \<open>\<open>Init\<close> with its probes as arguments: \<open>onceLer.Do\<close> runs the function unless it has run.\<close>

definition Init_with ::
  "int \<times> error option \<Rightarrow> (go_context \<Rightarrow> InfoStat list \<times> error option) \<Rightarrow> cpu_state
     \<Rightarrow> multierror \<times> cpu_state"
where
  "Init_with Counts Info s =
     (let s = (if onceLer s then s else (Init_probe Counts Info s)\<lparr>onceLer := True\<rparr>)
      in (initErr s, s))"

text \<open>\<open>Init\<close> on a host: the probes are \<open>cpu.Counts\<close> and this file's \<open>InfoWithContext\<close>.\<close>

definition Init :: "host \<Rightarrow> cpu_state \<Rightarrow> multierror \<times> cpu_state" where
  "Init h s = Init_with (cpu_Counts h) (\<lambda>ctx. InfoWithContext ctx h) s"

definition CPUNumCores :: "cpu_state \<Rightarrow> int" where
  "CPUNumCores s = cpuNumCores s"

definition CPUMHzPerCore :: "cpu_state \<Rightarrow> float64" where
  "CPUMHzPerCore s = cpuMhzPerCore s"

definition CPUModelName :: "cpu_state \<Rightarrow> string" where
  "CPUModelName s = cpuModelName s"

definition TotalTicksAvailable :: "cpu_state \<Rightarrow> float64" where
  "TotalTicksAvailable s = cpuTotalTicks s"

text \<open>A sequence of calls of \<open>Init\<close>, each on the host as it is at that call: the errors
  returned, in order, and the final state.\<close>

fun Init_calls :: "host list \<Rightarrow> cpu_state \<Rightarrow> multierror list \<times> cpu_state" where
  "Init_calls [] s = ([], s)"
| "Init_calls (h # hs) s =
     (let (e, s') = Init h s; (es, s'') = Init_calls hs s' in (e # es, s''))"

subsection \<open>Example hosts and probes\<close>

text \<open>
  A host on which every call succeeds, and one on which \<open>cpu.Counts\<close> and every string
  sysctl fail. The two give different answers to every call; the integer sysctls answer
  2400000000 on the first and 1000000000 on the second for every name, also for a
  clock-frequency name such as \<open>hw.cpufrequency\<close>.
\<close>

definition host_a :: host where
  "host_a = \<lparr>cpu_Counts = (8, None),
     Sysctl = (\<lambda>k. (''Apple M1'', None)),
     SysctlUint32 = (\<lambda>k. (2400000000, None))\<rparr>"

definition host_b :: host where
  "host_b = \<lparr>cpu_Counts = (0, Some ''operation not permitted''),
     Sysctl = (\<lambda>k. ([], Some ''no such file or directory'')),
     SysctlUint32 = (\<lambda>k. (1000000000, None))\<rparr>"

text \<open>A host whose feature sysctls answer with upper-case lists, except for the extended
  features, which fail.\<close>

definition host_c :: host where
  "host_c = \<lparr>cpu_Counts = (4, None),
     Sysctl = (\<lambda>k. if k = ''machdep.cpu.features'' then (''FPU VME  SSE3'', None)
                  else if k = ''machdep.cpu.leaf7_features'' then (''RDWRFSGS BMI1'', None)
                  else if k = ''machdep.cpu.extfeatures'' then ([], Some ''no such file or directory'')
                  else (''GenuineIntel'', None)),
     SysctlUint32 = (\<lambda>k. (6, None))\<rparr>"

text \<open>Answers of a CPU-info probe: a single processor with the given model name and raw
  clock speed, and a probe that fails and returns no processor.\<close>

definition info_ok :: "string \<Rightarrow> float64 \<Rightarrow> go_context \<Rightarrow> InfoStat list \<times> error option" where
  "info_ok name mhz ctx = ([InfoStat_zero\<lparr>ModelName := name, Mhz := mhz\<rparr>], None)"

definition info_failed :: "go_context \<Rightarrow> InfoStat list \<times> error option" where
  "info_failed ctx = ([], Some ''context deadline exceeded'')"

section \<open>Evaluations: the list endpoint and the broker\<close>

text \<open>
  The sources hold the documentation of the evaluations HTTP API, not the server: neither
  the handler of the list endpoint nor the evaluation broker is among them. Both are
  modelled from the specification here.
\<close>

text \<open>Modelled from the spec: the values of \<open>Status\<close> of an evaluation (section 3); the
  type is declared in code that is missing from the sources.\<close>

datatype eval_status = pending | blocked | complete | failed | canceled

text \<open>Modelled from the spec: the evaluation record (section 3), whose declaration is
  missing from the sources, with the attributes that the broker and the list endpoint use.\<close>

record evaluation =
  ID :: string
  Priority :: int
  Type :: string
  JobID :: string
  Status :: eval_status
  CreateIndex :: nat

subsection \<open>The broker\<close>

text \<open>Modelled from the spec: the broker's key \<open>(Priority desc, CreateIndex asc)\<close>
  (section 4.2); the broker itself is missing from the sources. \<open>dequeued_before a b\<close>
  holds when \<open>a\<close> may leave the queue before \<open>b\<close>.\<close>

definition dequeued_before :: "evaluation \<Rightarrow> evaluation \<Rightarrow> bool" where
  "dequeued_before a b \<longleftrightarrow>
     Priority a > Priority b \<or> (Priority a = Priority b \<and> CreateIndex a \<le> CreateIndex b)"

text \<open>Modelled from the spec: insertion into the priority-ordered structure of the
  missing broker, behind every queued evaluation that may leave before the new one.\<close>

fun insert_ordered :: "evaluation \<Rightarrow> evaluation list \<Rightarrow> evaluation list" where
  "insert_ordered e [] = [e]"
| "insert_ordered e (x # xs) =
     (if dequeued_before x e then x # insert_ordered e xs else e # x # xs)"

text \<open>Modelled from the spec: the state of the missing broker. \<open>ready\<close> is the
  priority-ordered structure, \<open>unack\<close> the evaluations in flight with their hand-off
  tokens, \<open>superseded\<close> the evaluations canceled by a newer one for the same job.\<close>

record broker =
  ready :: "evaluation list"
  unack :: "(evaluation \<times> nat) list"
  superseded :: "evaluation list"
  next_token :: nat

text \<open>Modelled from the spec: the missing broker when nothing has been enqueued.\<close>

definition new_broker :: broker where
  "new_broker = \<lparr>ready = [], unack = [], superseded = [], next_token = 0\<rparr>"

text \<open>Modelled from the spec: \<open>Enqueue\<close> of the missing broker (section 4.2). An
  evaluation for the same \<open>JobID\<close> that is enqueued or in flight is transitioned to
  \<open>canceled\<close> and removed; the new evaluation is inserted by its key.\<close>

definition Enqueue :: "evaluation \<Rightarrow> broker \<Rightarrow> broker" where
  "Enqueue e b =
     (let same_job = (\<lambda>x. JobID x = JobID e);
          older = filter same_job (ready b) @ filter same_job (map fst (unack b))
      in b\<lparr>ready := insert_ordered e (filter (\<lambda>x. \<not> same_job x) (ready b)),
            unack := filter (\<lambda>(x, t). \<not> same_job x) (unack b),
            superseded := superseded b @ map (\<lambda>x. x\<lparr>Status := canceled\<rparr>) older\<rparr>)"

text \<open>Modelled from the spec: \<open>Dequeue\<close> of the missing broker (section 4.2). The first
  queued evaluation of one of the caller's scheduler types is handed off with a fresh
  token and marked in flight; when there is none the call returns without an
  evaluation, as it does when its timeout elapses.\<close>

definition Dequeue :: "string list \<Rightarrow> broker \<Rightarrow> (evaluation \<times> nat) option \<times> broker" where
  "Dequeue schedulerTypes b =
     (case find (\<lambda>e. Type e \<in> set schedulerTypes) (ready b) of
        None \<Rightarrow> (None, b)
      | Some e \<Rightarrow>
          (Some (e, next_token b),
           b\<lparr>ready := remove1 e (ready b),
             unack := (e, next_token b) # unack b,
             next_token := Suc (next_token b)\<rparr>))"

text \<open>Evaluations enqueued one after the other, in the order of the list.\<close>

fun Enqueue_all :: "evaluation list \<Rightarrow> broker \<Rightarrow> broker" where
  "Enqueue_all [] b = b"
| "Enqueue_all (e # es) b = Enqueue_all es (Enqueue e b)"

text \<open>The evaluations returned by \<open>n\<close> successive calls of \<open>Dequeue\<close> by workers of the
  given scheduler types, in the order of the calls.\<close>

fun Dequeue_calls :: "nat \<Rightarrow> string list \<Rightarrow> broker \<Rightarrow> evaluation list" where
  "Dequeue_calls 0 ts b = []"
| "Dequeue_calls (Suc n) ts b =
     (case Dequeue ts b of
        (None, b') \<Rightarrow> Dequeue_calls n ts b'
      | (Some (e, token), b') \<Rightarrow> e # Dequeue_calls n ts b')"

definition eval_a :: evaluation where
  "eval_a = \<lparr>ID = ''5456bd7a-9fc0-c0dd-6131-cbee77f57577'', Priority = 50,
     Type = ''service'', JobID = ''example'', Status = pending, CreateIndex = 53\<rparr>"

definition eval_b :: evaluation where
  "eval_b = \<lparr>ID = ''25ba81c1-2b2f-47cc-9ee3-0a1f4b6d6d3a'', Priority = 70,
     Type = ''batch'', JobID = ''etl'', Status = pending, CreateIndex = 58\<rparr>"

definition eval_c :: evaluation where
  "eval_c = \<lparr>ID = ''25bb0f60-37c1-4f0e-8a57-6d2e7c1b9a10'', Priority = 50,
     Type = ''service'', JobID = ''api'', Status = pending, CreateIndex = 41\<rparr>"

subsection \<open>The list endpoint\<close>

text \<open>Modelled from the spec: the client error with which the missing HTTP layer answers
  malformed input (section 7).\<close>

datatype http_error = ClientError

text \<open>Modelled from the spec: the hexadecimal characters \<open>0-9a-f\<close> of a \<open>prefix\<close>, as
  the documentation of the list endpoint gives them; the handler is missing from the
  sources.\<close>

definition isHexDigit :: "char \<Rightarrow> bool" where
  "isHexDigit c \<longleftrightarrow> c \<in> set ''0123456789abcdef''"

text \<open>Modelled from the spec: the check of the \<open>prefix\<close> query parameter by the missing
  handler of \<open>GET /v1/evaluations\<close>. The value is decoded to bytes, so it must consist of
  an even number of hexadecimal characters.\<close>

definition decodable_prefix :: "string \<Rightarrow> bool" where
  "decodable_prefix p \<longleftrightarrow> list_all isHexDigit p \<and> even (length p)"

text \<open>Modelled from the spec: the filter of the missing handler, "based on an ID prefix":
  \<open>s\<close> starts with \<open>p\<close>.\<close>

definition has_prefix :: "string \<Rightarrow> string \<Rightarrow> bool" where
  "has_prefix p s \<longleftrightarrow> take (length p) s = p"

text \<open>Modelled from the spec: the server behind the HTTP boundary, with the stored
  evaluations and the broker.\<close>

record server =
  evaluations :: "evaluation list"
  eval_broker :: broker

text \<open>Modelled from the spec: the missing handler of \<open>GET /v1/evaluations\<close> for a request
  with the given \<open>prefix\<close> parameter (sections 6 and 7). A malformed prefix is answered
  with a client error at the boundary; otherwise the evaluations whose ID starts with
  the prefix are listed. The endpoint reads: the server is returned as it was.\<close>

definition list_evaluations :: "string \<Rightarrow> server \<Rightarrow> (http_error + evaluation list) \<times> server" where
  "list_evaluations p srv =
     (if \<not> decodable_prefix p then (Inl ClientError, srv)
      else (Inr (filter (\<lambda>e. has_prefix p (ID e)) (evaluations srv)), srv))"

definition example_server :: server where
  "example_server = \<lparr>evaluations = [eval_a, eval_b, eval_c],
     eval_broker = Enqueue_all [eval_a, eval_b, eval_c] new_broker\<rparr>"

section \<open>Properties of the CPU fingerprint helper\<close>

subsection \<open>Rounding to float64\<close>

text \<open>Whole numbers of magnitude up to \<open>2^53\<close> are \<open>float64\<close> values, and a product of
  whole numbers that stays in this range is exact. Beyond it the conversion and the
  product round: \<open>2^53 + 1\<close> cores become \<open>2^53\<close>, and their product with 3200 MHz is
  28823037615171174400.\<close>

lemma shift_for_small: "a < 9007199254740992 \<Longrightarrow> shift_for a = 0"
  by (simp add: shift_for.simps)

lemma shift_for_large: "\<not> a < 9007199254740992 \<Longrightarrow> shift_for a = Suc (shift_for (a div 2))"
  by (subst shift_for.simps) simp

lemma shift_for_scaled:
  "\<not> a < 9007199254740992 \<Longrightarrow> shift_for (a * 2 ^ j) = shift_for a + j"
proof (induction j)
  case 0
  then show ?case by simp
next
  case (Suc j)
  have big: "\<not> a * 2 ^ Suc j < 9007199254740992"
  proof -
    have "a \<le> a * 2 ^ Suc j" by simp
    with Suc.prems show ?thesis by linarith
  qed
  have "(a * 2 ^ Suc j) div 2 = a * 2 ^ j" by simp
  with big Suc show ?case by (simp add: shift_for_large)
qed

lemma shift_for_dvd:
  "a \<le> 9007199254740992 \<Longrightarrow> 2 ^ shift_for (a * 2 ^ j) dvd a * 2 ^ j"
proof (induction j)
  case 0
  show ?case
  proof (cases "a < 9007199254740992")
    case True
    then show ?thesis by (simp add: shift_for_small)
  next
    case False
    with 0 have a: "a = 9007199254740992" by simp
    have "shift_for a = Suc 0"
      unfolding a by (simp add: shift_for_large shift_for_small)
    then show ?thesis by (simp add: a)
  qed
next
  case (Suc j)
  show ?case
  proof (cases "a * 2 ^ Suc j < 9007199254740992")
    case True
    then show ?thesis by (simp add: shift_for_small)
  next
    case False
    have h: "(a * 2 ^ Suc j) div 2 = a * 2 ^ j" by simp
    have "shift_for (a * 2 ^ Suc j) = Suc (shift_for (a * 2 ^ j))"
      using False h by (simp add: shift_for_large)
    moreover have "2 ^ shift_for (a * 2 ^ j) dvd a * 2 ^ j" using Suc by simp
    ultimately show ?thesis by (simp add: mult_dvd_mono)
  qed
qed

lemma round53_exact:
  assumes "(2::nat) ^ shift_for m dvd m"
  shows "round53 (of_nat m) = of_nat m"
proof -
  obtain q where q: "m = 2 ^ shift_for m * q" using assms by (auto simp: dvd_def)
  have fl: "nat \<lfloor>(of_nat m :: real)\<rfloor> = m" by simp
  have "(of_nat m :: real) / 2 ^ shift_for m = of_nat q"
  proof -
    have "(of_nat m :: real) = 2 ^ shift_for m * of_nat q"
      by (subst q) (simp only: of_nat_mult of_nat_power of_nat_numeral)
    then show ?thesis by simp
  qed
  then have d: "\<lfloor>(of_nat m :: real) / 2 ^ shift_for m\<rfloor> = int q" by simp
  have e: "(of_nat m :: real) = of_int (int q) * 2 ^ shift_for m"
    by (subst q) (simp only: of_nat_mult of_nat_power of_nat_numeral of_int_of_nat_eq mult.commute)
  have z: "(of_nat m :: real) - of_int (int q) * 2 ^ shift_for m = 0" using e by simp
  show ?thesis
    unfolding round53_def Let_def fl d z using e by simp
qed

lemma round_float64_whole:
  assumes "\<bar>n\<bar> \<le> 9007199254740992"
  shows "round_float64 (of_int n) = of_int n"
proof -
  define a where "a = nat \<bar>n\<bar>"
  have a: "a \<le> 9007199254740992" using assms by (simp add: a_def)
  have x: "\<bar>of_int n :: real\<bar> * 2 ^ 1074 = of_nat (a * 2 ^ 1074)"
    by (simp add: a_def)
  have "round53 (of_nat (a * 2 ^ 1074)) = of_nat (a * 2 ^ 1074)"
    by (rule round53_exact) (rule shift_for_dvd [OF a])
  then have "round_float64 (of_int n) = sgn (of_int n) * (of_nat (a * 2 ^ 1074)) / 2 ^ 1074"
    unfolding round_float64_def x by simp
  also have "\<dots> = sgn (of_int n) * \<bar>of_int n :: real\<bar>"
    by (simp add: a_def)
  also have "\<dots> = of_int n" by (simp add: sgn_mult_abs)
  finally show ?thesis .
qed

lemma float64_mul_exact:
  assumes "\<bar>n * m\<bar> \<le> 9007199254740992"
  shows "float64_mul (float64_of_int n) (of_int m) = of_int n * of_int m"
proof (cases "m = 0")
  case True
  then show ?thesis by (simp add: float64_mul_def round_float64_def)
next
  case False
  then have "1 \<le> \<bar>m\<bar>" by simp
  then have "\<bar>n\<bar> * 1 \<le> \<bar>n\<bar> * \<bar>m\<bar>" by (intro mult_left_mono) simp_all
  with assms have n: "\<bar>n\<bar> \<le> 9007199254740992" by (simp add: abs_mult)
  have "float64_of_int n = of_int n"
    by (simp add: float64_of_int_def round_float64_whole [OF n])
  moreover have "round_float64 (of_int (n * m)) = of_int (n * m)"
    by (rule round_float64_whole [OF assms])
  ultimately show ?thesis by (simp add: float64_mul_def)
qed

lemma round53_scaled:
  assumes "\<not> a < 9007199254740992"
  shows "round53 (of_nat (a * 2 ^ j)) = round53 (of_nat a) * 2 ^ j"
proof -
  let ?s = "shift_for a"
  define q where "q = \<lfloor>(of_nat a :: real) / 2 ^ ?s\<rfloor>"
  define r where "r = (of_nat a :: real) - of_int q * 2 ^ ?s"
  have sh: "shift_for (nat \<lfloor>(of_nat (a * 2 ^ j) :: real)\<rfloor>) = ?s + j"
    using shift_for_scaled [OF assms, of j] by (simp only: floor_of_nat nat_int)
  have sh0: "shift_for (nat \<lfloor>(of_nat a :: real)\<rfloor>) = ?s"
    by (simp only: floor_of_nat nat_int)
  have dv: "(of_nat (a * 2 ^ j) :: real) / 2 ^ (?s + j) = of_nat a / 2 ^ ?s"
    by (simp add: power_add)
  have r': "(of_nat (a * 2 ^ j) :: real) - of_int q * 2 ^ (?s + j) = r * 2 ^ j"
    by (simp add: r_def power_add algebra_simps)
  have p: "(0::real) < 2 ^ j" by simp
  have c1: "2 * (r * 2 ^ j) < (2::real) ^ (?s + j) \<longleftrightarrow> 2 * r < 2 ^ ?s"
  proof -
    have "2 * (r * 2 ^ j) = (2 * r) * 2 ^ j" by simp
    moreover have "(2::real) ^ (?s + j) = 2 ^ ?s * 2 ^ j" by (simp add: power_add)
    ultimately show ?thesis using p by (simp only: mult_less_cancel_right_pos)
  qed
  have c2: "2 * (r * 2 ^ j) = (2::real) ^ (?s + j) \<longleftrightarrow> 2 * r = 2 ^ ?s"
  proof -
    have "2 * (r * 2 ^ j) = (2 * r) * 2 ^ j" by simp
    moreover have "(2::real) ^ (?s + j) = 2 ^ ?s * 2 ^ j" by (simp add: power_add)
    ultimately show ?thesis using p by (simp only: mult_cancel_right) simp
  qed
  have L: "round53 (of_nat (a * 2 ^ j)) =
     (if 2 * (r * 2 ^ j) < 2 ^ (?s + j) \<or> (2 * (r * 2 ^ j) = 2 ^ (?s + j) \<and> even q)
      then of_int q * 2 ^ (?s + j) else of_int (q + 1) * 2 ^ (?s + j))"
    unfolding round53_def Let_def sh dv q_def [symmetric] r' ..
  have R: "round53 (of_nat a) =
     (if 2 * r < 2 ^ ?s \<or> (2 * r = 2 ^ ?s \<and> even q)
      then of_int q * 2 ^ ?s else of_int (q + 1) * 2 ^ ?s)"
    unfolding round53_def Let_def sh0 q_def [symmetric] r_def [symmetric] ..
  show ?thesis
    unfolding L R c1 c2 by (simp add: power_add)
qed

lemma round_float64_of_nat:
  "round_float64 (of_nat a) = round53 (of_nat a)"
proof (cases "a < 9007199254740992")
  case True
  then have "\<bar>int a\<bar> \<le> 9007199254740992" by simp
  from round_float64_whole [OF this] have 1: "round_float64 (of_nat a) = of_nat a" by simp
  have "2 ^ shift_for a dvd a" using True by (simp add: shift_for_small)
  then have "round53 (of_nat a) = of_nat a" by (rule round53_exact)
  with 1 show ?thesis by simp
next
  case False
  then have pos: "0 < a" by simp
  have x: "\<bar>of_nat a :: real\<bar> * 2 ^ 1074 = of_nat (a * 2 ^ 1074)" by simp
  have "round_float64 (of_nat a) = sgn (of_nat a :: real) * (round53 (of_nat a) * 2 ^ 1074) / 2 ^ 1074"
    unfolding round_float64_def x round53_scaled [OF False] ..
  also have "\<dots> = round53 (of_nat a)" using pos by simp
  finally show ?thesis .
qed

lemma float64_of_int_rounds:
  "float64_of_int 9007199254740993 = 9007199254740992"
proof -
  have s: "shift_for 9007199254740993 = Suc 0"
    by (simp add: shift_for_large shift_for_small)
  have f: "\<lfloor>(9007199254740993::real) / 2\<rfloor> = 4503599627370496" by simp
  have "round53 (of_nat 9007199254740993) = 9007199254740992"
    unfolding round53_def Let_def by (simp add: s f)
  moreover have "float64_of_int 9007199254740993 = round_float64 (of_nat 9007199254740993)"
    by (simp add: float64_of_int_def)
  ultimately show ?thesis by (simp only: round_float64_of_nat)
qed

lemma float64_mul_rounds:
  "float64_mul (float64_of_int 9007199254740993) 3200 = 28823037615171174400"
proof -
  have s: "shift_for 28823037615171174400 = 12"
    by (simp add: shift_for_large shift_for_small)
  have f: "\<lfloor>(28823037615171174400::real) / 2 ^ 12\<rfloor> = 7036874417766400" by simp
  have "round53 (of_nat 28823037615171174400) = 28823037615171174400"
    unfolding round53_def Let_def by (simp add: s f)
  moreover have "float64_mul (float64_of_int 9007199254740993) 3200 =
      round_float64 (of_nat 28823037615171174400)"
    by (simp add: float64_mul_def float64_of_int_rounds)
  ultimately show ?thesis by (simp only: round_float64_of_nat)
qed

subsection \<open>What a run of the probe leaves in the state\<close>

lemma InfoWithContext_result:
  "\<exists>c. InfoWithContext ctx h = ([c], None) \<and> Mhz c = 3200 \<and>
     ModelName c = fst (Sysctl h ''machdep.cpu.brand_string'') \<and>
     VendorID c = fst (Sysctl h ''machdep.cpu.vendor'') \<and>
     Cores c = fst (SysctlUint32 h ''machdep.cpu.core_count'') \<and>
     CacheSize c = fst (SysctlUint32 h ''machdep.cpu.cache.size'') \<and>
     Flags c = probed_flags (Sysctl h ''machdep.cpu.features'') @
               probed_flags (Sysctl h ''machdep.cpu.leaf7_features'') @
               probed_flags (Sysctl h ''machdep.cpu.extfeatures'')"
proof -
  obtain f1 e1 where 1: "Sysctl h ''machdep.cpu.features'' = (f1, e1)"
    by (cases "Sysctl h ''machdep.cpu.features''")
  obtain f2 e2 where 2: "Sysctl h ''machdep.cpu.leaf7_features'' = (f2, e2)"
    by (cases "Sysctl h ''machdep.cpu.leaf7_features''")
  obtain f3 e3 where 3: "Sysctl h ''machdep.cpu.extfeatures'' = (f3, e3)"
    by (cases "Sysctl h ''machdep.cpu.extfeatures''")
  show ?thesis
    by (cases e1; cases e2; cases e3)
       (simp_all add: InfoWithContext_def Let_def appendFlags_def InfoStat_zero_def
          probed_flags_def 1 2 3)
qed

lemma InfoWithContext_any_context: "InfoWithContext ctx h = InfoWithContext ctx' h"
  by (simp add: InfoWithContext_def)

lemma Init_done: "onceLer s \<Longrightarrow> Init h s = (initErr s, s)"
  by (simp add: Init_def Init_with_def)

lemma Init_sets_done:
  "onceLer (snd (Init h s))" "initErr (snd (Init h s)) = fst (Init h s)"
  by (simp_all add: Init_def Init_with_def)

lemma Init_calls_done:
  "onceLer s \<Longrightarrow> Init_calls hs s = (replicate (length hs) (initErr s), s)"
  by (induction hs) (simp_all add: Init_done)

lemma Init_with_done: "onceLer s \<Longrightarrow> Init_with Counts Info s = (initErr s, s)"
  by (simp add: Init_with_def)

lemma Init_with_first:
  "\<not> onceLer s \<Longrightarrow> Init_with Counts Info s =
     (initErr (Init_probe Counts Info s), (Init_probe Counts Info s)\<lparr>onceLer := True\<rparr>)"
  by (simp add: Init_with_def)

lemma Init_with_sets_done:
  "onceLer (snd (Init_with Counts Info s)) \<and>
   initErr (snd (Init_with Counts Info s)) = fst (Init_with Counts Info s)"
  by (simp add: Init_with_def)

lemma Init_probe_fields:
  "cpuNumCores (Init_probe Counts Info s) = fst Counts"
  "cpuMhzPerCore (Init_probe Counts Info s) =
     math_Floor (case fst (Info (WithTimeout Background cpuInfoTimeout)) of
                   [] \<Rightarrow> cpuMhzPerCore s | c # _ \<Rightarrow> Mhz c)"
  "cpuModelName (Init_probe Counts Info s) =
     (case fst (Info (WithTimeout Background cpuInfoTimeout)) of
        [] \<Rightarrow> cpuModelName s | c # _ \<Rightarrow> ModelName c)"
  "cpuTotalTicks (Init_probe Counts Info s) =
     math_Floor (float64_mul (float64_of_int (fst Counts))
       (cpuMhzPerCore (Init_probe Counts Info s)))"
  "onceLer (Init_probe Counts Info s) = onceLer s"
  by (simp_all add: Init_probe_def Let_def split: prod.split list.split option.split)

lemma Init_probe_err:
  "initErr (Init_probe Counts Info s) =
     (case (snd Counts, snd (Info (WithTimeout Background cpuInfoTimeout))) of
        (None, None) \<Rightarrow> None
      | (Some e, None) \<Rightarrow> Some [Errorf ''Unable to determine the number of CPU cores available'' e]
      | (None, Some e') \<Rightarrow> Some [Errorf ''Unable to obtain CPU information'' e']
      | (Some e, Some e') \<Rightarrow> Some [Errorf ''Unable to determine the number of CPU cores available'' e,
                                    Errorf ''Unable to obtain CPU information'' e'])"
  by (cases Counts; cases "Info (WithTimeout Background cpuInfoTimeout)")
     (simp add: Init_probe_def Let_def Append_def ErrorOrNil_def split: list.split option.split)

subsection \<open>The claims\<close>

text \<open>
  C9. Before \<open>Init\<close> has ever been called every accessor returns the zero value of its
  type: \<open>CPUNumCores\<close> and \<open>CPUMHzPerCore\<close> return 0, \<open>CPUModelName\<close> the empty string
  and \<open>TotalTicksAvailable\<close> 0. An accessor is a read of the state: it takes no host,
  so it cannot probe, and it has no error result.
\<close>

theorem accessors_before_Init:
  "CPUNumCores start_state = 0 \<and> CPUMHzPerCore start_state = 0 \<and>
   CPUModelName start_state = [] \<and> TotalTicksAvailable start_state = 0"
  by (simp add: CPUNumCores_def CPUMHzPerCore_def CPUModelName_def TotalTicksAvailable_def
      start_state_def)

text \<open>
  C1. After the first \<open>Init\<close> has run its probe, the per-core MHz is the floor of the raw
  MHz of the first processor the CPU-info probe reported, the core count is the one
  \<open>cpu.Counts\<close> returned, and the memoized total ticks are the floor of the \<open>float64\<close>
  product of that core count and the already floored MHz. Whenever the exact product of
  the two has a magnitude of at most \<open>2^53\<close>, as on any real host, no rounding occurs and
  the total ticks are the floor of the exact product.
\<close>

theorem Init_total_ticks:
  assumes "\<not> onceLer s"
    and "fst (Info (WithTimeout Background cpuInfoTimeout)) = c # cs"
  shows "CPUMHzPerCore (snd (Init_with Counts Info s)) = of_int \<lfloor>Mhz c\<rfloor> \<and>
         CPUNumCores (snd (Init_with Counts Info s)) = fst Counts \<and>
         TotalTicksAvailable (snd (Init_with Counts Info s)) =
           math_Floor (float64_mul (float64_of_int (CPUNumCores (snd (Init_with Counts Info s))))
             (math_Floor (Mhz c))) \<and>
         (\<bar>fst Counts * \<lfloor>Mhz c\<rfloor>\<bar> \<le> 2 ^ 53 \<longrightarrow>
           TotalTicksAvailable (snd (Init_with Counts Info s)) =
             of_int \<lfloor>of_int (CPUNumCores (snd (Init_with Counts Info s))) * (of_int \<lfloor>Mhz c\<rfloor> :: real)\<rfloor>)"
proof -
  let ?s = "snd (Init_with Counts Info s)"
  have m: "CPUMHzPerCore ?s = of_int \<lfloor>Mhz c\<rfloor>"
    using assms by (simp add: Init_with_first Init_probe_fields CPUMHzPerCore_def math_Floor_def)
  have n: "CPUNumCores ?s = fst Counts"
    using assms by (simp add: Init_with_first Init_probe_fields CPUNumCores_def)
  have t: "TotalTicksAvailable ?s =
      math_Floor (float64_mul (float64_of_int (fst Counts)) (math_Floor (Mhz c)))"
    using assms by (simp add: Init_with_first Init_probe_fields TotalTicksAvailable_def)
  have e: "TotalTicksAvailable ?s = of_int \<lfloor>of_int (fst Counts) * (of_int \<lfloor>Mhz c\<rfloor> :: real)\<rfloor>"
    if b: "\<bar>fst Counts * \<lfloor>Mhz c\<rfloor>\<bar> \<le> 2 ^ 53"
  proof -
    from b have "\<bar>fst Counts * \<lfloor>Mhz c\<rfloor>\<bar> \<le> 9007199254740992" by simp
    then have "float64_mul (float64_of_int (fst Counts)) (of_int \<lfloor>Mhz c\<rfloor>) =
        of_int (fst Counts) * of_int \<lfloor>Mhz c\<rfloor>"
      by (rule float64_mul_exact)
    then show ?thesis by (simp add: t math_Floor_def)
  qed
  from m n t e show ?thesis by simp
qed

theorem Init_total_ticks_witness:
  "\<not> onceLer start_state \<and> \<bar>8 * \<lfloor>2394.7 :: real\<rfloor>\<bar> \<le> (2 ^ 53 :: int) \<and>
   CPUMHzPerCore (snd (Init_with (8, None) (info_ok ''Apple M1'' 2394.7) start_state)) = 2394 \<and>
   CPUNumCores (snd (Init_with (8, None) (info_ok ''Apple M1'' 2394.7) start_state)) = 8 \<and>
   TotalTicksAvailable (snd (Init_with (8, None) (info_ok ''Apple M1'' 2394.7) start_state)) = 19152"
proof -
  have h1: "\<not> onceLer start_state" by (simp add: start_state_def)
  have h2: "fst (info_ok ''Apple M1'' 2394.7 (WithTimeout Background cpuInfoTimeout)) =
    InfoStat_zero\<lparr>ModelName := ''Apple M1'', Mhz := 2394.7\<rparr> # []"
    by (simp add: info_ok_def)
  have f: "\<lfloor>2394.7 :: real\<rfloor> = 2394" by simp
  have b: "\<bar>8 * \<lfloor>2394.7 :: real\<rfloor>\<bar> \<le> (2 ^ 53 :: int)" by (simp add: f)
  let ?s = "snd (Init_with (8, None) (info_ok ''Apple M1'' 2394.7) start_state)"
  note T = Init_total_ticks [where s = start_state and Info = "info_ok ''Apple M1'' 2394.7"
        and c = "InfoStat_zero\<lparr>ModelName := ''Apple M1'', Mhz := 2394.7\<rparr>" and cs = "[]"
        and Counts = "(8, None)", OF h1 h2]
  from T [THEN conjunct1] have m: "CPUMHzPerCore ?s = 2394" by (simp add: f)
  from T [THEN conjunct2, THEN conjunct1] have n: "CPUNumCores ?s = 8" by simp
  have b': "\<bar>fst (8 :: int, None :: error option) *
      \<lfloor>Mhz (InfoStat_zero\<lparr>ModelName := ''Apple M1'', Mhz := 2394.7\<rparr>)\<rfloor>\<bar> \<le> 2 ^ 53"
    using b by simp
  from mp [OF T [THEN conjunct2, THEN conjunct2, THEN conjunct2] b']
  have t: "TotalTicksAvailable ?s = 19152" by (simp add: n f)
  from h1 b m n t show ?thesis by simp
qed

text \<open>
  C5. The total ticks are a function of the core count and of the floor of the raw MHz
  only: two runs of the probe, on the same or on different hosts, with equal core counts
  and raw MHz values that have the same floor leave equal total ticks and equal MHz per
  core, whatever else the probes returned. Recomputing from the same raw inputs is the
  case of equal raw values.
\<close>

theorem floored_ticks_stable:
  assumes "\<not> onceLer sa" and "\<not> onceLer sb"
    and "fst (InfoA (WithTimeout Background cpuInfoTimeout)) = ca # csa"
    and "fst (InfoB (WithTimeout Background cpuInfoTimeout)) = cb # csb"
    and "fst CountsA = fst CountsB"
    and "\<lfloor>Mhz ca\<rfloor> = \<lfloor>Mhz cb\<rfloor>"
  shows "TotalTicksAvailable (snd (Init_with CountsA InfoA sa)) =
           TotalTicksAvailable (snd (Init_with CountsB InfoB sb)) \<and>
         CPUMHzPerCore (snd (Init_with CountsA InfoA sa)) =
           CPUMHzPerCore (snd (Init_with CountsB InfoB sb))"
  using assms
  by (simp add: Init_with_first Init_probe_fields CPUMHzPerCore_def TotalTicksAvailable_def
      math_Floor_def)

theorem floored_ticks_stable_witness:
  "\<not> onceLer start_state \<and> \<lfloor>2394.2 :: real\<rfloor> = \<lfloor>2394.9 :: real\<rfloor> \<and> (2394.2 :: real) \<noteq> 2394.9 \<and>
   TotalTicksAvailable (snd (Init_with (8, None) (info_ok ''Apple M1'' 2394.2) start_state)) =
     TotalTicksAvailable (snd (Init_with (8, None) (info_ok ''Apple M1'' 2394.9) start_state)) \<and>
   CPUMHzPerCore (snd (Init_with (8, None) (info_ok ''Apple M1'' 2394.2) start_state)) =
     CPUMHzPerCore (snd (Init_with (8, None) (info_ok ''Apple M1'' 2394.9) start_state))"
proof -
  have h: "\<not> onceLer start_state" by (simp add: start_state_def)
  have a: "fst (info_ok ''Apple M1'' 2394.2 (WithTimeout Background cpuInfoTimeout)) =
    InfoStat_zero\<lparr>ModelName := ''Apple M1'', Mhz := 2394.2\<rparr> # []"
    by (simp add: info_ok_def)
  have b: "fst (info_ok ''Apple M1'' 2394.9 (WithTimeout Background cpuInfoTimeout)) =
    InfoStat_zero\<lparr>ModelName := ''Apple M1'', Mhz := 2394.9\<rparr> # []"
    by (simp add: info_ok_def)
  have f: "\<lfloor>2394.2 :: real\<rfloor> = \<lfloor>2394.9 :: real\<rfloor>" by simp
  show ?thesis
    using floored_ticks_stable [where sa = start_state and sb = start_state
        and InfoA = "info_ok ''Apple M1'' 2394.2" and InfoB = "info_ok ''Apple M1'' 2394.9"
        and ca = "InfoStat_zero\<lparr>ModelName := ''Apple M1'', Mhz := 2394.2\<rparr>" and csa = "[]"
        and cb = "InfoStat_zero\<lparr>ModelName := ''Apple M1'', Mhz := 2394.9\<rparr>" and csb = "[]"
        and CountsA = "(8, None)" and CountsB = "(8, None)"] h a b f
    by simp
qed

text \<open>
  C2. The first call of \<open>Init\<close> in a process, on a state in which the \<open>sync.Once\<close> has
  not run, runs the probe: it returns the error the probe left and the state is the one
  the probe left, marked as done. In any sequence of calls of \<open>Init\<close>, whatever the host
  answers at each call, every call returns the error that the first call returned, and
  the state after the last call is the state after the first: the later calls do not
  probe, a failure of the first call is returned again and never retried, and
  \<open>cpuNumCores\<close>, \<open>cpuMhzPerCore\<close>, \<open>cpuModelName\<close> and \<open>cpuTotalTicks\<close> keep their
  values. So after any sequence of calls in a fresh process the state is that of one run
  of the probe, on the host of the first call.
\<close>

theorem Init_once:
  "Init_calls (h # hs) s = (replicate (Suc (length hs)) (fst (Init h s)), snd (Init h s)) \<and>
   (\<not> onceLer s \<longrightarrow>
      Init h s = (initErr (Init_probe (cpu_Counts h) (\<lambda>ctx. InfoWithContext ctx h) s),
                  (Init_probe (cpu_Counts h) (\<lambda>ctx. InfoWithContext ctx h) s)\<lparr>onceLer := True\<rparr>)) \<and>
   Init_calls (h # hs) start_state =
     (replicate (Suc (length hs))
        (initErr (Init_probe (cpu_Counts h) (\<lambda>ctx. InfoWithContext ctx h) start_state)),
      (Init_probe (cpu_Counts h) (\<lambda>ctx. InfoWithContext ctx h) start_state)\<lparr>onceLer := True\<rparr>) \<and>
   CPUNumCores (snd (Init_calls (h # hs) start_state)) = fst (cpu_Counts h)"
proof -
  have seq: "Init_calls (h # hs) t = (replicate (Suc (length hs)) (fst (Init h t)), snd (Init h t))"
    for t
  proof -
    obtain e t' where i: "Init h t = (e, t')" by (cases "Init h t")
    have "onceLer t'" and "initErr t' = e"
      using Init_sets_done [of h t] by (simp_all add: i)
    then have "Init_calls hs t' = (replicate (length hs) e, t')"
      by (simp add: Init_calls_done)
    then show ?thesis by (simp add: i)
  qed
  have first: "Init h t = (initErr (Init_probe (cpu_Counts h) (\<lambda>ctx. InfoWithContext ctx h) t),
                  (Init_probe (cpu_Counts h) (\<lambda>ctx. InfoWithContext ctx h) t)\<lparr>onceLer := True\<rparr>)"
    if "\<not> onceLer t" for t
    using that by (simp add: Init_def Init_with_first)
  have n: "\<not> onceLer start_state" by (simp add: start_state_def)
  have fresh: "Init_calls (h # hs) start_state =
     (replicate (Suc (length hs))
        (initErr (Init_probe (cpu_Counts h) (\<lambda>ctx. InfoWithContext ctx h) start_state)),
      (Init_probe (cpu_Counts h) (\<lambda>ctx. InfoWithContext ctx h) start_state)\<lparr>onceLer := True\<rparr>)"
    by (simp only: seq [of start_state] first [OF n] fst_conv snd_conv)
  have cores: "CPUNumCores (snd (Init_calls (h # hs) start_state)) = fst (cpu_Counts h)"
    by (simp only: fresh snd_conv) (simp add: CPUNumCores_def Init_probe_fields)
  from seq [of s] first [of s] fresh cores show ?thesis by blast
qed

theorem Init_once_witness:
  "\<not> onceLer start_state \<and>
   fst (Init_calls [host_a, host_b] start_state) = [None, None] \<and>
   CPUNumCores (snd (Init_calls [host_a, host_b] start_state)) = 8 \<and>
   CPUModelName (snd (Init_calls [host_a, host_b] start_state)) = ''Apple M1'' \<and>
   onceLer (snd (Init_calls [host_a, host_b] start_state)) \<and>
   fst (Init_calls [host_b, host_a] start_state) =
     [Some [''Unable to determine the number of CPU cores available: operation not permitted''],
      Some [''Unable to determine the number of CPU cores available: operation not permitted'']] \<and>
   CPUNumCores (snd (Init_calls [host_b, host_a] start_state)) = 0"
proof -
  have n: "\<not> onceLer start_state" by (simp add: start_state_def)
  obtain a where a: "InfoWithContext (WithTimeout Background cpuInfoTimeout) host_a = ([a], None)"
    and na: "ModelName a = fst (Sysctl host_a ''machdep.cpu.brand_string'')"
    using InfoWithContext_result [of "WithTimeout Background cpuInfoTimeout" host_a] by blast
  obtain b where b: "InfoWithContext (WithTimeout Background cpuInfoTimeout) host_b = ([b], None)"
    using InfoWithContext_result [of "WithTimeout Background cpuInfoTimeout" host_b] by blast
  note A = Init_once [of host_a "[host_b]" start_state, THEN conjunct2, THEN conjunct2, THEN conjunct1]
  note B = Init_once [of host_b "[host_a]" start_state, THEN conjunct2, THEN conjunct2, THEN conjunct1]
  have ea: "initErr (Init_probe (cpu_Counts host_a) (\<lambda>ctx. InfoWithContext ctx host_a) start_state) = None"
    by (simp add: Init_probe_err a) (simp add: host_a_def)
  have eb: "initErr (Init_probe (cpu_Counts host_b) (\<lambda>ctx. InfoWithContext ctx host_b) start_state) =
      Some [''Unable to determine the number of CPU cores available: operation not permitted'']"
    by (simp add: Init_probe_err b) (simp add: host_b_def Errorf_def)
  have 1: "fst (Init_calls [host_a, host_b] start_state) = [None, None]"
    by (simp only: A fst_conv ea) (simp add: numeral_2_eq_2)
  have 2: "CPUNumCores (snd (Init_calls [host_a, host_b] start_state)) = 8"
    by (simp only: A snd_conv) (simp add: CPUNumCores_def Init_probe_fields host_a_def)
  have 3: "CPUModelName (snd (Init_calls [host_a, host_b] start_state)) = ''Apple M1''"
    by (simp only: A snd_conv) (simp add: CPUModelName_def Init_probe_fields a na, simp add: host_a_def)
  have 4: "onceLer (snd (Init_calls [host_a, host_b] start_state))"
    by (simp only: A snd_conv) simp
  have 5: "fst (Init_calls [host_b, host_a] start_state) =
     [Some [''Unable to determine the number of CPU cores available: operation not permitted''],
      Some [''Unable to determine the number of CPU cores available: operation not permitted'']]"
    by (simp only: B fst_conv eb) (simp add: numeral_2_eq_2)
  have 6: "CPUNumCores (snd (Init_calls [host_b, host_a] start_state)) = 0"
    by (simp only: B snd_conv) (simp add: CPUNumCores_def Init_probe_fields host_b_def)
  from n 1 2 3 4 5 6 show ?thesis by blast
qed

text \<open>
  C3. The probe collects its failures instead of stopping at the first: the error that
  the first \<open>Init\<close> returns holds the cause of the core-count failure, the cause of the
  CPU-info failure, both in this order when both probes fail, and is \<open>nil\<close> exactly
  when neither failed. Whatever failed, the core count is the one \<open>cpu.Counts\<close>
  returned, and the model name and MHz per core are those of the first processor the
  CPU-info probe returned. With this file's \<open>InfoWithContext\<close> the CPU-info probe never
  fails; the probe is an argument here so that its failure can be stated.
\<close>

theorem Init_aggregates_errors:
  assumes "\<not> onceLer s"
  shows "fst (Init_with Counts Info s) =
           (case (snd Counts, snd (Info (WithTimeout Background cpuInfoTimeout))) of
              (None, None) \<Rightarrow> None
            | (Some e, None) \<Rightarrow>
                Some [Errorf ''Unable to determine the number of CPU cores available'' e]
            | (None, Some e') \<Rightarrow> Some [Errorf ''Unable to obtain CPU information'' e']
            | (Some e, Some e') \<Rightarrow>
                Some [Errorf ''Unable to determine the number of CPU cores available'' e,
                      Errorf ''Unable to obtain CPU information'' e']) \<and>
         CPUNumCores (snd (Init_with Counts Info s)) = fst Counts \<and>
         (fst (Info (WithTimeout Background cpuInfoTimeout)) = c # cs \<longrightarrow>
           CPUModelName (snd (Init_with Counts Info s)) = ModelName c \<and>
           CPUMHzPerCore (snd (Init_with Counts Info s)) = math_Floor (Mhz c)) \<and>
         (snd (Info (WithTimeout Background cpuInfoTimeout)) \<noteq> None \<longrightarrow>
           fst (Init_with Counts Info s) \<noteq> None) \<and>
         (fst (Init_with Counts Info s) = None \<longleftrightarrow>
           snd Counts = None \<and> snd (Info (WithTimeout Background cpuInfoTimeout)) = None)"
proof -
  have e: "fst (Init_with Counts Info s) = initErr (Init_probe Counts Info s)"
    using assms by (simp add: Init_with_first)
  have 1: "fst (Init_with Counts Info s) =
           (case (snd Counts, snd (Info (WithTimeout Background cpuInfoTimeout))) of
              (None, None) \<Rightarrow> None
            | (Some e, None) \<Rightarrow>
                Some [Errorf ''Unable to determine the number of CPU cores available'' e]
            | (None, Some e') \<Rightarrow> Some [Errorf ''Unable to obtain CPU information'' e']
            | (Some e, Some e') \<Rightarrow>
                Some [Errorf ''Unable to determine the number of CPU cores available'' e,
                      Errorf ''Unable to obtain CPU information'' e'])"
    by (simp only: e Init_probe_err)
  have 2: "CPUNumCores (snd (Init_with Counts Info s)) = fst Counts"
    using assms by (simp add: Init_with_first Init_probe_fields CPUNumCores_def)
  have 3: "fst (Info (WithTimeout Background cpuInfoTimeout)) = c # cs \<longrightarrow>
           CPUModelName (snd (Init_with Counts Info s)) = ModelName c \<and>
           CPUMHzPerCore (snd (Init_with Counts Info s)) = math_Floor (Mhz c)"
    using assms
    by (simp add: Init_with_first Init_probe_fields CPUModelName_def CPUMHzPerCore_def)
  have 4: "snd (Info (WithTimeout Background cpuInfoTimeout)) \<noteq> None \<longrightarrow>
           fst (Init_with Counts Info s) \<noteq> None"
    by (simp only: 1) (simp split: option.split)
  have 5: "fst (Init_with Counts Info s) = None \<longleftrightarrow>
           snd Counts = None \<and> snd (Info (WithTimeout Background cpuInfoTimeout)) = None"
    by (simp only: 1) (simp split: option.split)
  from 1 2 3 4 5 show ?thesis by (intro conjI)
qed

theorem Init_aggregates_errors_witness:
  "\<not> onceLer start_state \<and>
   fst (Init_with (0, Some ''operation not permitted'') (info_ok ''Apple M1'' 3200) start_state) =
     Some [''Unable to determine the number of CPU cores available: operation not permitted''] \<and>
   CPUModelName (snd (Init_with (0, Some ''operation not permitted'') (info_ok ''Apple M1'' 3200) start_state)) = ''Apple M1'' \<and>
   CPUMHzPerCore (snd (Init_with (0, Some ''operation not permitted'') (info_ok ''Apple M1'' 3200) start_state)) = 3200 \<and>
   fst (Init_with (8, None) info_failed start_state) =
     Some [''Unable to obtain CPU information: context deadline exceeded''] \<and>
   CPUNumCores (snd (Init_with (8, None) info_failed start_state)) = 8 \<and>
   fst (Init_with (0, Some ''operation not permitted'') info_failed start_state) =
     Some [''Unable to determine the number of CPU cores available: operation not permitted'',
           ''Unable to obtain CPU information: context deadline exceeded''] \<and>
   fst (Init_with (8, None) (info_ok ''Apple M1'' 3200) start_state) = None"
proof -
  have h: "\<not> onceLer start_state" by (simp add: start_state_def)
  have a: "info_ok ''Apple M1'' 3200 (WithTimeout Background cpuInfoTimeout) =
    (InfoStat_zero\<lparr>ModelName := ''Apple M1'', Mhz := 3200\<rparr> # [], None)"
    by (simp add: info_ok_def)
  have b: "info_failed (WithTimeout Background cpuInfoTimeout) = ([], Some ''context deadline exceeded'')"
    by (simp add: info_failed_def)
  note T1 = Init_aggregates_errors [where s = start_state
        and Counts = "(0, Some ''operation not permitted'')" and Info = "info_ok ''Apple M1'' 3200"
        and c = "InfoStat_zero\<lparr>ModelName := ''Apple M1'', Mhz := 3200\<rparr>" and cs = "[]", OF h]
  note T2 = Init_aggregates_errors [where s = start_state and Counts = "(8, None)"
        and Info = info_failed, OF h]
  note T3 = Init_aggregates_errors [where s = start_state
        and Counts = "(0, Some ''operation not permitted'')" and Info = info_failed, OF h]
  note T4 = Init_aggregates_errors [where s = start_state and Counts = "(8, None)"
        and Info = "info_ok ''Apple M1'' 3200", OF h]
  have 1: "fst (Init_with (0, Some ''operation not permitted'') (info_ok ''Apple M1'' 3200) start_state) =
     Some [''Unable to determine the number of CPU cores available: operation not permitted'']"
    by (simp only: T1 [THEN conjunct1]) (simp add: a Errorf_def)
  have 2: "CPUModelName (snd (Init_with (0, Some ''operation not permitted'') (info_ok ''Apple M1'' 3200) start_state)) = ''Apple M1'' \<and>
   CPUMHzPerCore (snd (Init_with (0, Some ''operation not permitted'') (info_ok ''Apple M1'' 3200) start_state)) = 3200"
    using T1 [THEN conjunct2, THEN conjunct2, THEN conjunct1] by (simp add: a math_Floor_def)
  have 3: "fst (Init_with (8, None) info_failed start_state) =
     Some [''Unable to obtain CPU information: context deadline exceeded'']"
    by (simp only: T2 [THEN conjunct1]) (simp add: b Errorf_def)
  have 4: "CPUNumCores (snd (Init_with (8, None) info_failed start_state)) = 8"
    using T2 [THEN conjunct2, THEN conjunct1] by simp
  have 5: "fst (Init_with (0, Some ''operation not permitted'') info_failed start_state) =
     Some [''Unable to determine the number of CPU cores available: operation not permitted'',
           ''Unable to obtain CPU information: context deadline exceeded'']"
    by (simp only: T3 [THEN conjunct1]) (simp add: b Errorf_def)
  have 6: "fst (Init_with (8, None) (info_ok ''Apple M1'' 3200) start_state) = None"
    by (simp only: T4 [THEN conjunct1]) (simp add: a)
  from h 1 2 3 4 5 6 show ?thesis by blast
qed

text \<open>
  C10. For every context and every host, whatever errors the sysctl calls return,
  \<open>InfoWithContext\<close> returns a \<open>nil\<close> error and a slice of exactly one \<open>InfoStat\<close>.
  So the error of the first \<open>Init\<close> is \<open>nil\<close> or consists of the core-count failure
  alone: the branch \<open>Unable to obtain CPU information\<close> never adds to it.
\<close>

theorem InfoWithContext_never_fails:
  "snd (InfoWithContext ctx h) = None \<and> length (fst (InfoWithContext ctx h)) = 1 \<and>
   fst (Init h start_state) =
     (case snd (cpu_Counts h) of None \<Rightarrow> None
      | Some e \<Rightarrow> Some [Errorf ''Unable to determine the number of CPU cores available'' e])"
proof -
  obtain c where c: "InfoWithContext ctx h = ([c], None)"
    using InfoWithContext_result [of ctx h] by blast
  obtain d where d: "InfoWithContext (WithTimeout Background cpuInfoTimeout) h = ([d], None)"
    using InfoWithContext_result [of "WithTimeout Background cpuInfoTimeout" h] by blast
  have "\<not> onceLer start_state" by (simp add: start_state_def)
  then have "fst (Init h start_state) =
     (case snd (cpu_Counts h) of None \<Rightarrow> None
      | Some e \<Rightarrow> Some [Errorf ''Unable to determine the number of CPU cores available'' e])"
    by (simp add: Init_def Init_with_first Init_probe_err d split: option.split)
  then show ?thesis by (simp add: c)
qed

text \<open>
  C4, as stated, fails. The MHz per core does not reflect the clock speed of the host:
  \<open>host_a\<close> and \<open>host_b\<close> answer every call differently, and report 2400000000 and
  1000000000 for a clock-frequency sysctl, yet both get 3200 MHz per core.
\<close>

theorem MHz_not_probed_counterexample:
  "SysctlUint32 host_a ''hw.cpufrequency'' = (2400000000, None) \<and>
   SysctlUint32 host_b ''hw.cpufrequency'' = (1000000000, None) \<and>
   CPUMHzPerCore (snd (Init host_a start_state)) = 3200 \<and>
   CPUMHzPerCore (snd (Init host_b start_state)) = 3200"
proof -
  have n: "\<not> onceLer start_state" by (simp add: start_state_def)
  obtain a where a: "InfoWithContext (WithTimeout Background cpuInfoTimeout) host_a = ([a], None)"
    and ma: "Mhz a = 3200"
    using InfoWithContext_result [of "WithTimeout Background cpuInfoTimeout" host_a] by blast
  obtain b where b: "InfoWithContext (WithTimeout Background cpuInfoTimeout) host_b = ([b], None)"
    and mb: "Mhz b = 3200"
    using InfoWithContext_result [of "WithTimeout Background cpuInfoTimeout" host_b] by blast
  have "CPUMHzPerCore (snd (Init host_a start_state)) = 3200"
    using n by (simp add: Init_def Init_with_first Init_probe_fields CPUMHzPerCore_def a ma math_Floor_def)
  moreover have "CPUMHzPerCore (snd (Init host_b start_state)) = 3200"
    using n by (simp add: Init_def Init_with_first Init_probe_fields CPUMHzPerCore_def b mb math_Floor_def)
  ultimately show ?thesis by (simp add: host_a_def host_b_def)
qed

text \<open>
  C4, amended. On every host the MHz per core after the first \<open>Init\<close> is 3200, the
  value \<open>InfoWithContext\<close> derives from its fixed \<open>cpuFrequency\<close> of 3200000000; no
  clock speed is read from the host. The core count is the answer of \<open>cpu.Counts\<close>. The
  model name, the vendor ID, the core count of the \<open>InfoStat\<close> and the cache size are
  the answers of the sysctl calls, and the feature flags are probed too: they are the
  lower-cased fields of the features, the leaf-7 features and the extended features, in
  this order, of each of these sysctls that answered without an error (stated for ASCII
  answers).
\<close>

theorem MHz_is_constant:
  "CPUMHzPerCore (snd (Init h start_state)) = 3200 \<and>
   CPUNumCores (snd (Init h start_state)) = fst (cpu_Counts h) \<and>
   CPUModelName (snd (Init h start_state)) = fst (Sysctl h ''machdep.cpu.brand_string'') \<and>
   (\<exists>c. fst (InfoWithContext ctx h) = [c] \<and> Mhz c = 3200 \<and>
      VendorID c = fst (Sysctl h ''machdep.cpu.vendor'') \<and>
      Cores c = fst (SysctlUint32 h ''machdep.cpu.core_count'') \<and>
      CacheSize c = fst (SysctlUint32 h ''machdep.cpu.cache.size'') \<and>
      (isASCII (fst (Sysctl h ''machdep.cpu.features'')) \<and>
       isASCII (fst (Sysctl h ''machdep.cpu.leaf7_features'')) \<and>
       isASCII (fst (Sysctl h ''machdep.cpu.extfeatures'')) \<longrightarrow>
         Flags c = probed_flags (Sysctl h ''machdep.cpu.features'') @
                   probed_flags (Sysctl h ''machdep.cpu.leaf7_features'') @
                   probed_flags (Sysctl h ''machdep.cpu.extfeatures'')))"
proof -
  have n: "\<not> onceLer start_state" by (simp add: start_state_def)
  obtain d where d: "InfoWithContext (WithTimeout Background cpuInfoTimeout) h = ([d], None)"
    and md: "Mhz d = 3200" and nd: "ModelName d = fst (Sysctl h ''machdep.cpu.brand_string'')"
    using InfoWithContext_result [of "WithTimeout Background cpuInfoTimeout" h] by blast
  have 1: "CPUMHzPerCore (snd (Init h start_state)) = 3200"
    using n by (simp add: Init_def Init_with_first Init_probe_fields CPUMHzPerCore_def d md math_Floor_def)
  have 2: "CPUNumCores (snd (Init h start_state)) = fst (cpu_Counts h)"
    using n by (simp add: Init_def Init_with_first Init_probe_fields CPUNumCores_def)
  have 3: "CPUModelName (snd (Init h start_state)) = fst (Sysctl h ''machdep.cpu.brand_string'')"
    using n by (simp add: Init_def Init_with_first Init_probe_fields CPUModelName_def d nd)
  obtain c where "InfoWithContext ctx h = ([c], None)" "Mhz c = 3200"
     "VendorID c = fst (Sysctl h ''machdep.cpu.vendor'')"
     "Cores c = fst (SysctlUint32 h ''machdep.cpu.core_count'')"
     "CacheSize c = fst (SysctlUint32 h ''machdep.cpu.cache.size'')"
     "Flags c = probed_flags (Sysctl h ''machdep.cpu.features'') @
                probed_flags (Sysctl h ''machdep.cpu.leaf7_features'') @
                probed_flags (Sysctl h ''machdep.cpu.extfeatures'')"
    using InfoWithContext_result [of ctx h] by blast
  then have 4: "\<exists>c. fst (InfoWithContext ctx h) = [c] \<and> Mhz c = 3200 \<and>
      VendorID c = fst (Sysctl h ''machdep.cpu.vendor'') \<and>
      Cores c = fst (SysctlUint32 h ''machdep.cpu.core_count'') \<and>
      CacheSize c = fst (SysctlUint32 h ''machdep.cpu.cache.size'') \<and>
      (isASCII (fst (Sysctl h ''machdep.cpu.features'')) \<and>
       isASCII (fst (Sysctl h ''machdep.cpu.leaf7_features'')) \<and>
       isASCII (fst (Sysctl h ''machdep.cpu.extfeatures'')) \<longrightarrow>
         Flags c = probed_flags (Sysctl h ''machdep.cpu.features'') @
                   probed_flags (Sysctl h ''machdep.cpu.leaf7_features'') @
                   probed_flags (Sysctl h ''machdep.cpu.extfeatures''))"
    by simp
  from 1 2 3 4 show ?thesis by blast
qed

theorem MHz_is_constant_witness:
  "isASCII (fst (Sysctl host_c ''machdep.cpu.features'')) \<and>
   isASCII (fst (Sysctl host_c ''machdep.cpu.leaf7_features'')) \<and>
   isASCII (fst (Sysctl host_c ''machdep.cpu.extfeatures'')) \<and>
   CPUMHzPerCore (snd (Init host_c start_state)) = 3200 \<and>
   CPUNumCores (snd (Init host_c start_state)) = 4 \<and>
   (\<exists>c. fst (InfoWithContext Background host_c) = [c] \<and> Mhz c = 3200 \<and>
      VendorID c = ''GenuineIntel'' \<and> CacheSize c = 6 \<and>
      Flags c = [''fpu'', ''vme'', ''sse3'', ''rdwrfsgs'', ''bmi1''])"
proof -
  have k: "Sysctl host_c ''machdep.cpu.features'' = (''FPU VME  SSE3'', None)"
      "Sysctl host_c ''machdep.cpu.leaf7_features'' = (''RDWRFSGS BMI1'', None)"
      "Sysctl host_c ''machdep.cpu.extfeatures'' = ([], Some ''no such file or directory'')"
      "Sysctl host_c ''machdep.cpu.vendor'' = (''GenuineIntel'', None)"
      "SysctlUint32 host_c ''machdep.cpu.cache.size'' = (6, None)"
      "cpu_Counts host_c = (4, None)"
    by (simp_all add: host_c_def)
  have a: "isASCII ''FPU VME  SSE3''" "isASCII ''RDWRFSGS BMI1''" "isASCII []"
    by (simp_all add: isASCII_def)
  have f1: "map ToLower (Fields ''FPU VME  SSE3'') = [''fpu'', ''vme'', ''sse3'']"
    by code_simp
  have f2: "map ToLower (Fields ''RDWRFSGS BMI1'') = [''rdwrfsgs'', ''bmi1'']"
    by code_simp
  have p: "probed_flags (Sysctl host_c ''machdep.cpu.features'') @
           probed_flags (Sysctl host_c ''machdep.cpu.leaf7_features'') @
           probed_flags (Sysctl host_c ''machdep.cpu.extfeatures'') =
           [''fpu'', ''vme'', ''sse3'', ''rdwrfsgs'', ''bmi1'']"
    by (simp add: probed_flags_def k f1 f2)
  note T = MHz_is_constant [of host_c Background]
  from T [THEN conjunct2, THEN conjunct2, THEN conjunct2]
  obtain c where c: "fst (InfoWithContext Background host_c) = [c]" "Mhz c = 3200"
      "VendorID c = fst (Sysctl host_c ''machdep.cpu.vendor'')"
      "CacheSize c = fst (SysctlUint32 host_c ''machdep.cpu.cache.size'')"
      and fl: "isASCII (fst (Sysctl host_c ''machdep.cpu.features'')) \<and>
       isASCII (fst (Sysctl host_c ''machdep.cpu.leaf7_features'')) \<and>
       isASCII (fst (Sysctl host_c ''machdep.cpu.extfeatures'')) \<longrightarrow>
         Flags c = probed_flags (Sysctl host_c ''machdep.cpu.features'') @
                   probed_flags (Sysctl host_c ''machdep.cpu.leaf7_features'') @
                   probed_flags (Sysctl host_c ''machdep.cpu.extfeatures'')"
    by blast
  have asc: "isASCII (fst (Sysctl host_c ''machdep.cpu.features'')) \<and>
       isASCII (fst (Sysctl host_c ''machdep.cpu.leaf7_features'')) \<and>
       isASCII (fst (Sysctl host_c ''machdep.cpu.extfeatures''))"
    by (simp add: k a)
  from mp [OF fl asc] have "Flags c = [''fpu'', ''vme'', ''sse3'', ''rdwrfsgs'', ''bmi1'']"
    by (simp only: p)
  with c have ex: "\<exists>c. fst (InfoWithContext Background host_c) = [c] \<and> Mhz c = 3200 \<and>
      VendorID c = ''GenuineIntel'' \<and> CacheSize c = 6 \<and>
      Flags c = [''fpu'', ''vme'', ''sse3'', ''rdwrfsgs'', ''bmi1'']"
    by (simp add: k)
  have m: "CPUMHzPerCore (snd (Init host_c start_state)) = 3200"
    using T [THEN conjunct1] .
  have n: "CPUNumCores (snd (Init host_c start_state)) = 4"
    using T [THEN conjunct2, THEN conjunct1] by (simp add: k)
  from asc m n ex show ?thesis by blast
qed

text \<open>
  C6, as stated, fails. The timeout does not bound the CPU-info probe: under a context
  whose timeout is zero, which has expired when it is made, \<open>InfoWithContext\<close> still
  returns a \<open>nil\<close> error, and the same result as under the 60 second context.
\<close>

theorem timeout_not_consulted_counterexample:
  "snd (InfoWithContext (WithTimeout Background 0) host_b) = None \<and>
   InfoWithContext (WithTimeout Background 0) host_b =
     InfoWithContext (WithTimeout Background cpuInfoTimeout) host_b"
proof -
  obtain c where "InfoWithContext (WithTimeout Background 0) host_b = ([c], None)"
    using InfoWithContext_result [of "WithTimeout Background 0" host_b] by blast
  then have "snd (InfoWithContext (WithTimeout Background 0) host_b) = None" by simp
  moreover have "InfoWithContext (WithTimeout Background 0) host_b =
     InfoWithContext (WithTimeout Background cpuInfoTimeout) host_b"
    by (rule InfoWithContext_any_context)
  ultimately show ?thesis by simp
qed

text \<open>
  C6, amended. \<open>cpuInfoTimeout\<close> is 60 seconds, that is 60000000000 nanoseconds, and the
  context that \<open>Init\<close> hands to its CPU-info probe is the background context with exactly
  this timeout, with no condition on the platform: \<open>Init\<close> applies the probe to this
  context and to no other. \<open>InfoWithContext\<close> never consults its context, so its result
  is the same under every context.
\<close>

theorem probe_context_has_60s_timeout:
  "cpuInfoTimeout = 60 * 1000000000 \<and>
   Init_with Counts Info s =
     Init_with Counts (\<lambda>ctx. Info (WithTimeout Background (60 * 1000000000))) s \<and>
   InfoWithContext ctx h = InfoWithContext ctx' h"
proof -
  have t: "cpuInfoTimeout = 60 * 1000000000"
    by (simp add: cpuInfoTimeout_def Second_def)
  have "Init_probe Counts Info s =
        Init_probe Counts (\<lambda>ctx. Info (WithTimeout Background cpuInfoTimeout)) s"
    by (simp add: Init_probe_def)
  then have i: "Init_with Counts Info s =
     Init_with Counts (\<lambda>ctx. Info (WithTimeout Background (60 * 1000000000))) s"
    by (simp add: Init_with_def t)
  have c: "InfoWithContext ctx h = InfoWithContext ctx' h"
    by (rule InfoWithContext_any_context)
  from t i c show ?thesis by (intro conjI)
qed

section \<open>Properties of the evaluation broker and of the list endpoint\<close>

subsection \<open>The queue stays ordered\<close>

lemma dequeued_before_total: "\<not> dequeued_before a b \<Longrightarrow> dequeued_before b a"
  by (auto simp: dequeued_before_def)

lemma dequeued_before_trans: "dequeued_before a b \<Longrightarrow> dequeued_before b c \<Longrightarrow> dequeued_before a c"
  by (auto simp: dequeued_before_def)

lemma set_insert_ordered: "set (insert_ordered e xs) = insert e (set xs)"
  by (induction xs) auto

lemma mset_insert_ordered: "mset (insert_ordered e xs) = add_mset e (mset xs)"
  by (induction xs) auto

lemma sorted_insert_ordered:
  "sorted_wrt dequeued_before xs \<Longrightarrow> sorted_wrt dequeued_before (insert_ordered e xs)"
proof (induction xs)
  case Nil
  then show ?case by simp
next
  case (Cons x xs)
  show ?case
  proof (cases "dequeued_before x e")
    case True
    with Cons show ?thesis by (auto simp: set_insert_ordered)
  next
    case False
    then have ex: "dequeued_before e x" by (rule dequeued_before_total)
    have "\<forall>y\<in>set xs. dequeued_before e y"
      using Cons.prems ex by (auto intro: dequeued_before_trans)
    with False ex Cons.prems show ?thesis by simp
  qed
qed

lemma sorted_ready_Enqueue:
  "sorted_wrt dequeued_before (ready b) \<Longrightarrow> sorted_wrt dequeued_before (ready (Enqueue e b))"
  by (simp add: Enqueue_def Let_def sorted_insert_ordered sorted_wrt_filter)

lemma sorted_ready_Enqueue_all:
  "sorted_wrt dequeued_before (ready b) \<Longrightarrow> sorted_wrt dequeued_before (ready (Enqueue_all es b))"
  by (induction es arbitrary: b) (simp_all add: sorted_ready_Enqueue)

lemma find_Some_holds: "find P xs = Some e \<Longrightarrow> P e"
  by (induction xs) (auto split: if_splits)

lemma filter_find_remove1:
  "find P xs = Some e \<Longrightarrow> filter P xs = e # filter P (remove1 e xs)"
  by (induction xs) (auto split: if_splits dest: find_Some_holds)

lemma find_None_filter: "find P xs = None \<Longrightarrow> filter P xs = []"
  by (induction xs) (auto split: if_splits)

lemma Dequeue_calls_eq:
  "Dequeue_calls n ts b = take n (filter (\<lambda>e. Type e \<in> set ts) (ready b))"
proof (induction n arbitrary: b)
  case 0
  then show ?case by simp
next
  case (Suc n)
  show ?case
  proof (cases "find (\<lambda>e. Type e \<in> set ts) (ready b)")
    case None
    then show ?thesis
      by (simp add: Dequeue_def Suc find_None_filter)
  next
    case (Some e)
    then show ?thesis
      by (simp add: Dequeue_def Suc filter_find_remove1)
  qed
qed

lemma mset_ready_Enqueue_all:
  "distinct (map JobID es) \<Longrightarrow> \<forall>x\<in>set (ready b). \<forall>y\<in>set es. JobID x \<noteq> JobID y \<Longrightarrow>
   mset (ready (Enqueue_all es b)) = mset (ready b) + mset es"
proof (induction es arbitrary: b)
  case Nil
  then show ?case by simp
next
  case (Cons e es)
  have "\<forall>x\<in>set (ready b). JobID x \<noteq> JobID e"
    using Cons.prems(2) by simp
  then have keep: "filter (\<lambda>x. JobID x \<noteq> JobID e) (ready b) = ready b"
    by (simp add: filter_id_conv)
  have r: "ready (Enqueue e b) = insert_ordered e (ready b)"
    by (simp add: Enqueue_def Let_def keep)
  have d: "distinct (map JobID es)" and n: "\<forall>y\<in>set es. JobID e \<noteq> JobID y"
    using Cons.prems(1) by auto
  have "\<forall>x\<in>set (ready (Enqueue e b)). \<forall>y\<in>set es. JobID x \<noteq> JobID y"
    using Cons.prems(2) n by (simp add: r set_insert_ordered)
  with Cons.IH[of "Enqueue e b"] d show ?case
    by (simp add: r mset_insert_ordered)
qed

subsection \<open>The claims\<close>

text \<open>
  C8. Evaluations are enqueued into a new broker in any order. Then the evaluations that
  successive calls of \<open>Dequeue\<close> return come in non-increasing \<open>Priority\<close>, and
  among equal priorities in ascending \<open>CreateIndex\<close>, for any number of calls. When
  the evaluations are for different jobs, so that none supersedes another, and of the
  scheduler types asked for, as many calls as there are evaluations return all of them.
\<close>

theorem Dequeue_priority_order:
  "sorted_wrt dequeued_before (Dequeue_calls n ts (Enqueue_all es new_broker)) \<and>
   (distinct (map JobID es) \<and> list_all (\<lambda>e. Type e \<in> set ts) es \<longrightarrow>
      mset (Dequeue_calls (length es) ts (Enqueue_all es new_broker)) = mset es)"
proof
  have s: "sorted_wrt dequeued_before (ready (Enqueue_all es new_broker))"
    by (rule sorted_ready_Enqueue_all) (simp add: new_broker_def)
  show "sorted_wrt dequeued_before (Dequeue_calls n ts (Enqueue_all es new_broker))"
    unfolding Dequeue_calls_eq using s by (simp add: sorted_wrt_filter sorted_wrt_take)
  show "distinct (map JobID es) \<and> list_all (\<lambda>e. Type e \<in> set ts) es \<longrightarrow>
      mset (Dequeue_calls (length es) ts (Enqueue_all es new_broker)) = mset es"
  proof
    assume a: "distinct (map JobID es) \<and> list_all (\<lambda>e. Type e \<in> set ts) es"
    let ?r = "ready (Enqueue_all es new_broker)"
    have m: "mset ?r = mset es"
      using mset_ready_Enqueue_all[of es new_broker] a by (simp add: new_broker_def)
    then have "set ?r = set es" by (metis set_mset_mset)
    with a have f: "filter (\<lambda>e. Type e \<in> set ts) ?r = ?r"
      by (simp add: filter_id_conv list_all_iff)
    have "length ?r = length es" using m by (metis size_mset)
    then show "mset (Dequeue_calls (length es) ts (Enqueue_all es new_broker)) = mset es"
      by (simp add: Dequeue_calls_eq f m)
  qed
qed


theorem Dequeue_priority_order_witness:
  "distinct (map JobID [eval_a, eval_b, eval_c]) \<and>
   list_all (\<lambda>e. Type e \<in> set [''service'', ''batch'']) [eval_a, eval_b, eval_c] \<and>
   Dequeue_calls 3 [''service'', ''batch''] (Enqueue_all [eval_a, eval_b, eval_c] new_broker) =
     [eval_b, eval_c, eval_a] \<and>
   sorted_wrt dequeued_before [eval_b, eval_c, eval_a] \<and>
   mset [eval_b, eval_c, eval_a] = mset [eval_a, eval_b, eval_c]"
proof -
  have d: "distinct (map JobID [eval_a, eval_b, eval_c]) \<and>
   list_all (\<lambda>e. Type e \<in> set [''service'', ''batch'']) [eval_a, eval_b, eval_c]"
    by (simp add: eval_a_def eval_b_def eval_c_def)
  have r: "Dequeue_calls 3 [''service'', ''batch''] (Enqueue_all [eval_a, eval_b, eval_c] new_broker) =
     [eval_b, eval_c, eval_a]"
    by code_simp
  have l: "length [eval_a, eval_b, eval_c] = 3" by simp
  from Dequeue_priority_order [of 3 "[''service'', ''batch'']" "[eval_a, eval_b, eval_c]"] d r l
  show ?thesis by (simp only: simp_thms)
qed

text \<open>
  C7. A request to the list endpoint whose \<open>prefix\<close> consists of an odd number of
  hexadecimal characters is answered with a client error, whatever the server holds, and
  the server with its broker is left as it was; a prefix of an even number of hexadecimal
  characters is accepted, and the evaluations whose ID starts with it are listed.
\<close>

theorem prefix_checked_at_boundary:
  assumes "list_all isHexDigit p"
  shows "(odd (length p) \<longrightarrow> list_evaluations p srv = (Inl ClientError, srv)) \<and>
         (even (length p) \<longrightarrow>
            list_evaluations p srv =
              (Inr (filter (\<lambda>e. has_prefix p (ID e)) (evaluations srv)), srv))"
  using assms by (simp add: list_evaluations_def decodable_prefix_def)

theorem prefix_checked_at_boundary_witness:
  "list_all isHexDigit ''25b'' \<and> odd (length ''25b'') \<and>
   list_evaluations ''25b'' example_server = (Inl ClientError, example_server) \<and>
   list_all isHexDigit ''25ba81'' \<and> even (length ''25ba81'') \<and>
   list_evaluations ''25ba81'' example_server = (Inr [eval_b], example_server)"
proof -
  have a: "list_all isHexDigit ''25b''" "odd (length ''25b'')"
    by (simp_all add: isHexDigit_def)
  have b: "list_all isHexDigit ''25ba81''" "even (length ''25ba81'')"
    by (simp_all add: isHexDigit_def)
  have f: "filter (\<lambda>e. has_prefix ''25ba81'' (ID e)) (evaluations example_server) = [eval_b]"
    by (simp add: example_server_def has_prefix_def eval_a_def eval_b_def eval_c_def)
  show ?thesis
    using prefix_checked_at_boundary [OF a(1), of example_server]
      prefix_checked_at_boundary [OF b(1), of example_server] a b f
    by simp
qed

end
